theory Spec2Isabelle
  imports Complex_Main "HOL-Library.Multiset" "HOL-Library.Char_ord" "HOL-Library.List_Lexorder"
begin

section \<open>The data frame\<close>

text \<open>
  The script \<^verbatim>\<open>seattle_sidewalk_analysis.py\<close> works on one pandas data frame. After
  the renaming of lines 18 to 25 each row has six columns. A missing cell (NaN) is
  \<open>None\<close>. The float64 cells are modelled by exact rationals: sums, means and decimal
  rounding are those of exact arithmetic, without the binary rounding error of floats.
\<close>

record row =
  longitude :: "rat option"
  latitude :: "rat option"
  label_type :: "string option"
  neighborhood :: "string option"
  severity :: "rat option"
  is_temporary :: "bool option"

type_synonym dataframe = "row list"

text \<open>The non-missing cells of a column, in order.\<close>

fun dropna :: "'a option list \<Rightarrow> 'a list" where
  "dropna [] = []"
| "dropna (None # col) = dropna col"
| "dropna (Some v # col) = v # dropna col"

section \<open>Loading and cleaning (lines 27 to 38)\<close>

text \<open>
  \<^verbatim>\<open>Series.median()\<close> skips missing cells: the middle value of the sorted values, the
  half sum of the two middle values when their number is even, NaN when there is none.
\<close>

definition median :: "rat list \<Rightarrow> rat option" where
  "median vs =
     (let s = sort vs; n = length s
      in if n = 0 then None
         else if odd n then Some (s ! (n div 2))
         else Some ((s ! (n div 2 - 1) + s ! (n div 2)) / 2))"

text \<open>\<^verbatim>\<open>Series.fillna(value)\<close> on one cell; filling with NaN changes nothing.\<close>

fun fillna :: "'a option \<Rightarrow> 'a option \<Rightarrow> 'a option" where
  "fillna value None = value"
| "fillna value (Some v) = Some v"

text \<open>Line 29: the number of missing severities, printed at line 31.\<close>

definition missing_sev :: "dataframe \<Rightarrow> nat" where
  "missing_sev df = length (filter (\<lambda>r. severity r = None) df)"

text \<open>Line 30: the median is taken over the severity column of the whole frame.\<close>

definition impute :: "dataframe \<Rightarrow> dataframe" where
  "impute df =
     (let m = median (dropna (map severity df))
      in map (\<lambda>r. r\<lparr>severity := fillna m (severity r)\<rparr>) df)"

text \<open>Lines 34 to 36: the mask of rows to remove. A missing cell is not equal to 0.\<close>

definition bad_coords :: "row \<Rightarrow> bool" where
  "bad_coords r \<longleftrightarrow>
     (longitude r = Some 0 \<and> latitude r = Some 0) \<or> longitude r = None \<or> latitude r = None"

text \<open>Lines 30 and 37 together: the cleaned frame.\<close>

definition clean :: "dataframe \<Rightarrow> dataframe" where
  "clean df = filter (\<lambda>r. \<not> bad_coords r) (impute df)"

section \<open>Analysis and ranking (lines 45 to 67)\<close>

record agg_row =
  group_neighborhood :: string
  total_barriers :: nat
  avg_severity :: "rat option"

record stats_row = agg_row +
  barrier_density_index :: "rat option"

text \<open>
  \<^verbatim>\<open>groupby("neighborhood")\<close> with its defaults: rows whose key is missing belong to no
  group, and the groups come in ascending order of their keys.
\<close>

definition group_keys :: "dataframe \<Rightarrow> string list" where
  "group_keys df = sort (remdups (dropna (map neighborhood df)))"

definition group_rows :: "dataframe \<Rightarrow> string \<Rightarrow> dataframe" where
  "group_rows df k = filter (\<lambda>r. neighborhood r = Some k) df"

text \<open>The aggregations \<^verbatim>\<open>count\<close> and \<^verbatim>\<open>mean\<close> both skip missing cells.\<close>

definition count_agg :: "rat option list \<Rightarrow> nat" where
  "count_agg col = length (dropna col)"

definition mean_agg :: "rat option list \<Rightarrow> rat option" where
  "mean_agg col =
     (let vs = dropna col
      in if vs = [] then None else Some (sum_list vs / of_nat (length vs)))"

definition agg_group :: "dataframe \<Rightarrow> string \<Rightarrow> agg_row" where
  "agg_group df k =
     \<lparr>group_neighborhood = k,
      total_barriers = count_agg (map severity (group_rows df k)),
      avg_severity = mean_agg (map severity (group_rows df k))\<rparr>"

definition groupby_agg :: "dataframe \<Rightarrow> agg_row list" where
  "groupby_agg df = map (agg_group df) (group_keys df)"

text \<open>Line 54: the index column, from the mean as aggregated. A product with NaN is NaN.\<close>

definition add_index :: "agg_row \<Rightarrow> stats_row" where
  "add_index a =
     \<lparr>group_neighborhood = group_neighborhood a,
      total_barriers = total_barriers a,
      avg_severity = avg_severity a,
      barrier_density_index = map_option (\<lambda>m. of_nat (total_barriers a) * m) (avg_severity a)\<rparr>"

text \<open>
  \<^verbatim>\<open>Series.round(d)\<close> is numpy's: scale by \<open>10 ^ d\<close>, round to the nearest integer with
  halves going to the even neighbour, scale back.
\<close>

definition rint :: "rat \<Rightarrow> int" where
  "rint x =
     (let f = \<lfloor>x\<rfloor>; d = x - of_int f
      in if d < 1 / 2 then f
         else if 1 / 2 < d then f + 1
         else if even f then f else f + 1)"

definition round_dec :: "nat \<Rightarrow> rat \<Rightarrow> rat" where
  "round_dec d x = of_int (rint (x * 10 ^ d)) / 10 ^ d"

text \<open>Lines 57 and 58: both columns are rounded after the index has been computed.\<close>

definition round_cols :: "stats_row \<Rightarrow> stats_row" where
  "round_cols s =
     s\<lparr>avg_severity := map_option (round_dec 2) (avg_severity s),
       barrier_density_index := map_option (round_dec 1) (barrier_density_index s)\<rparr>"

text \<open>
  Lines 61 to 65: \<^verbatim>\<open>sort_values(ascending=False)\<close>, missing values last. The model is
  an insertion sort that keeps rows of equal index in their order. The library's default
  sort does not promise an order among rows of equal index, and nothing below depends on
  that order.
\<close>

fun goes_before :: "rat option \<Rightarrow> rat option \<Rightarrow> bool" where
  "goes_before _ None = True"
| "goes_before None (Some _) = False"
| "goes_before (Some x) (Some y) = (y \<le> x)"

fun insert_row :: "stats_row \<Rightarrow> stats_row list \<Rightarrow> stats_row list" where
  "insert_row r [] = [r]"
| "insert_row r (s # ss) =
     (if goes_before (barrier_density_index r) (barrier_density_index s)
      then r # s # ss else s # insert_row r ss)"

definition sort_values :: "stats_row list \<Rightarrow> stats_row list" where
  "sort_values rows = foldr insert_row rows []"

text \<open>Lines 45 to 65 on the cleaned frame, and the whole path from the loaded frame.\<close>

definition ranked :: "dataframe \<Rightarrow> stats_row list" where
  "ranked cl = sort_values (map (\<lambda>a. round_cols (add_index a)) (groupby_agg cl))"

definition stats :: "dataframe \<Rightarrow> stats_row list" where
  "stats df = ranked (clean df)"

text \<open>The comparison \<^verbatim>\<open>>=\<close> of two floats: false as soon as one of them is NaN.\<close>

fun float_ge :: "rat option \<Rightarrow> rat option \<Rightarrow> bool" where
  "float_ge (Some x) (Some y) = (y \<le> x)"
| "float_ge _ _ = False"

text \<open>Line 67: \<^verbatim>\<open>head(10)\<close> takes the first ten rows, or all when there are fewer.\<close>

definition top10 :: "dataframe \<Rightarrow> stats_row list" where
  "top10 df = take 10 (stats df)"

section \<open>The summary (lines 196 to 199)\<close>

text \<open>
  The charts and the map drawn between line 67 and line 196 are calls into plotting
  libraries and are not modelled. The summary reads the first two rows of the top ten.
\<close>

datatype error = IndexError

text \<open>\<^verbatim>\<open>iloc[i]\<close> with \<open>i \<ge> 0\<close> raises IndexError out of range.\<close>

definition iloc :: "'a list \<Rightarrow> nat \<Rightarrow> error + 'a" where
  "iloc xs i = (if i < length xs then Inr (xs ! i) else Inl IndexError)"

definition quick_insight :: "stats_row list \<Rightarrow> error + (stats_row \<times> stats_row)" where
  "quick_insight t =
     (case iloc t 0 of
        Inl e \<Rightarrow> Inl e
      | Inr n1 \<Rightarrow> (case iloc t 1 of Inl e \<Rightarrow> Inl e | Inr n2 \<Rightarrow> Inr (n1, n2)))"

section \<open>Sample frames\<close>

definition barrier :: "rat option \<Rightarrow> rat option \<Rightarrow> string option \<Rightarrow> rat option \<Rightarrow> row" where
  "barrier lon lat nb sev =
     \<lparr>longitude = lon, latitude = lat, label_type = Some ''CurbRamp'',
      neighborhood = nb, severity = sev, is_temporary = Some False\<rparr>"

definition located :: "string option \<Rightarrow> rat option \<Rightarrow> row" where
  "located nb sev = barrier (Some (- 122)) (Some 47) nb sev"


text \<open>No row has a usable location.\<close>

definition frame_no_location :: dataframe where
  "frame_no_location =
     [barrier (Some 0) (Some 0) (Some ''A'') (Some 3),
      barrier None (Some 47) (Some ''B'') (Some 4),
      barrier (Some (- 122)) None (Some ''C'') None]"

text \<open>The second row has no neighborhood.\<close>

definition frame_no_key :: dataframe where
  "frame_no_key = [located (Some ''A'') (Some 3), located None (Some 5)]"

text \<open>Every severity is missing.\<close>

definition frame_all_null :: dataframe where
  "frame_all_null = [located (Some ''A'') None, located (Some ''B'') None]"

definition frame_out_of_range :: dataframe where
  "frame_out_of_range = [located (Some ''A'') (Some 7)]"

text \<open>The severities 1, 3, missing, 5, missing.\<close>

definition frame_imputation :: dataframe where
  "frame_imputation = map (located (Some ''A'')) [Some 1, Some 3, None, Some 5, None]"


text \<open>Longitude 0 with latitude 47.6, and the origin.\<close>

definition frame_origin :: dataframe where
  "frame_origin =
     [barrier (Some 0) (Some (238 / 5)) (Some ''A'') (Some 4),
      barrier (Some 0) (Some 0) (Some ''A'') (Some 4)]"

text \<open>The records (A, 4), (A, 2), (B, 5).\<close>

definition frame_example :: dataframe where
  "frame_example =
     [located (Some ''A'') (Some 4), located (Some ''A'') (Some 2), located (Some ''B'') (Some 5)]"

text \<open>One neighborhood only.\<close>

definition frame_single :: dataframe where
  "frame_single = [located (Some ''A'') (Some 3)]"

text \<open>The order of the ranked report: a missing index goes last.\<close>

abbreviation in_rank_order :: "stats_row \<Rightarrow> stats_row \<Rightarrow> bool" where
  "in_rank_order a b \<equiv> goes_before (barrier_density_index a) (barrier_density_index b)"

section \<open>Columns, sorting and grouping\<close>


lemma length_dropna: "length (dropna col) = length (filter (\<lambda>v. v \<noteq> None) col)"
  by (induction col rule: dropna.induct) simp_all

lemma set_dropna: "set (dropna col) = {v. Some v \<in> set col}"
  by (induction col rule: dropna.induct) auto

lemma dropna_eq_Nil: "dropna col = [] \<longleftrightarrow> (\<forall>c \<in> set col. c = None)"
  by (induction col rule: dropna.induct) auto

lemma mset_insert_row: "mset (insert_row r ss) = add_mset r (mset ss)"
  by (induction ss) simp_all

lemma mset_sort_values: "mset (sort_values rs) = mset rs"
  by (induction rs) (simp_all add: sort_values_def mset_insert_row)

lemma set_sort_values: "set (sort_values rs) = set rs"
  using mset_sort_values [of rs] by (metis set_mset_mset)

lemma length_sort_values: "length (sort_values rs) = length rs"
  using mset_sort_values [of rs] by (metis size_mset)

lemma goes_before_total: "\<not> goes_before a b \<Longrightarrow> goes_before b a"
  by (cases a; cases b) simp_all

lemma goes_before_trans: "goes_before a b \<Longrightarrow> goes_before b c \<Longrightarrow> goes_before a c"
  by (cases a; cases b; cases c) simp_all

lemma set_insert_row: "set (insert_row r ss) = insert r (set ss)"
  using mset_insert_row [of r ss] by (metis set_mset_add_mset_insert set_mset_mset)

lemma sorted_insert_row:
  "sorted_wrt in_rank_order ss \<Longrightarrow> sorted_wrt in_rank_order (insert_row r ss)"
proof (induction ss)
  case Nil
  then show ?case by simp
next
  case (Cons s ss)
  show ?case
  proof (cases "in_rank_order r s")
    case True
    with Cons.prems show ?thesis
      by (auto intro: goes_before_trans)
  next
    case False
    then have "in_rank_order s r" by (rule goes_before_total)
    with False Cons show ?thesis
      by (auto simp: set_insert_row)
  qed
qed

lemma sorted_sort_values: "sorted_wrt in_rank_order (sort_values rs)"
  by (induction rs) (simp_all add: sort_values_def sorted_insert_row)

lemma set_group_keys: "set (group_keys df) = {k. \<exists>r \<in> set df. neighborhood r = Some k}"
  by (force simp: group_keys_def set_dropna)

lemma distinct_group_keys: "distinct (group_keys df)"
  by (simp add: group_keys_def)

lemma sorted_group_keys: "sorted (group_keys df)"
  by (simp add: group_keys_def)

section \<open>The median\<close>

lemma sort_eq_Nil: "sort vs = [] \<longleftrightarrow> vs = []"
  by (metis length_0_conv length_sort)

lemma median_unfold:
  "median vs =
     (if vs = [] then None
      else if odd (length vs) then Some (sort vs ! (length vs div 2))
      else Some ((sort vs ! (length vs div 2 - 1) + sort vs ! (length vs div 2)) / 2))"
  by (simp add: median_def Let_def sort_eq_Nil)

lemma median_None_iff: "median vs = None \<longleftrightarrow> vs = []"
  by (cases "vs = []"; cases "odd (length vs)") (simp_all add: median_unfold)

lemma sort_nth_in_set: "i < length vs \<Longrightarrow> sort vs ! i \<in> set vs"
  by (metis length_sort nth_mem set_sort)

lemma median_bounds:
  assumes "\<forall>v \<in> set vs. a \<le> v \<and> v \<le> b" and "median vs = Some m"
  shows "a \<le> m \<and> m \<le> b"
proof -
  let ?n = "length vs"
  from assms(2) have ne: "vs \<noteq> []"
    by (auto simp: median_unfold)
  then have "0 < ?n" by simp
  then have i1: "?n div 2 < ?n" and i0: "?n div 2 - 1 < ?n"
    by arith+
  have hi: "a \<le> sort vs ! (?n div 2) \<and> sort vs ! (?n div 2) \<le> b"
    using assms(1) sort_nth_in_set [OF i1] by blast
  have lo: "a \<le> sort vs ! (?n div 2 - 1) \<and> sort vs ! (?n div 2 - 1) \<le> b"
    using assms(1) sort_nth_in_set [OF i0] by blast
  show ?thesis
  proof (cases "odd ?n")
    case True
    with assms(2) ne hi show ?thesis by (simp add: median_unfold)
  next
    case False
    with assms(2) ne have "m = (sort vs ! (?n div 2 - 1) + sort vs ! (?n div 2)) / 2"
      by (simp add: median_unfold)
    with hi lo show ?thesis by simp
  qed
qed






section \<open>Facts about cleaning\<close>

lemma bad_coords_severity_update [simp]: "bad_coords (r\<lparr>severity := s\<rparr>) = bad_coords r"
  by (simp add: bad_coords_def)

lemma impute_map:
  "impute df = map (\<lambda>r. r\<lparr>severity := fillna (median (dropna (map severity df))) (severity r)\<rparr>) df"
  by (simp add: impute_def Let_def)

lemma clean_filter_first:
  "clean df =
     map (\<lambda>r. r\<lparr>severity := fillna (median (dropna (map severity df))) (severity r)\<rparr>)
       (filter (\<lambda>r. \<not> bad_coords r) df)"
  by (simp add: clean_def impute_map filter_map comp_def)

lemma fillna_eq_None: "fillna m s = None \<longleftrightarrow> m = None \<and> s = None"
  by (cases s) simp_all

lemma median_column_None:
  "median (dropna (map severity df)) = None \<longleftrightarrow> (\<forall>q \<in> set df. severity q = None)"
  by (simp add: median_None_iff dropna_eq_Nil)

lemma severity_clean_None:
  "r \<in> set (clean df) \<Longrightarrow> severity r = None \<Longrightarrow> q \<in> set df \<Longrightarrow> severity q = None"
  by (auto simp: clean_filter_first fillna_eq_None median_column_None)

lemma severity_clean_present:
  assumes "\<exists>q \<in> set df. severity q \<noteq> None" and "r \<in> set (clean df)"
  shows "severity r \<noteq> None"
proof
  assume n: "severity r = None"
  from assms(1) obtain q where q: "q \<in> set df" and s: "severity q \<noteq> None"
    by auto
  from severity_clean_None [OF assms(2) n q] s show False
    by simp
qed

section \<open>Facts about aggregation and ranking\<close>

lemma count_agg_filter:
  "count_agg (map severity g) = length (filter (\<lambda>r. severity r \<noteq> None) g)"
  by (simp add: count_agg_def length_dropna filter_map comp_def)

lemma length_filter_keys:
  assumes "finite K"
  shows "(\<Sum>k \<in> K. length (filter (\<lambda>r. neighborhood r = Some k \<and> P r) xs))
         = length (filter (\<lambda>r. (\<exists>k \<in> K. neighborhood r = Some k) \<and> P r) xs)"
proof (induction xs)
  case Nil
  then show ?case by simp
next
  case (Cons r xs)
  have one: "(\<Sum>k \<in> K. if neighborhood r = Some k \<and> P r then 1 else 0)
             = (if (\<exists>k \<in> K. neighborhood r = Some k) \<and> P r then 1 else (0::nat))"
  proof (cases "neighborhood r")
    case None
    then show ?thesis by simp
  next
    case (Some k0)
    have "(\<Sum>k \<in> K. if Some k0 = Some k \<and> P r then 1 else 0)
          = (\<Sum>k \<in> K. if k = k0 then (if P r then 1 else 0) else (0::nat))"
      by (rule sum.cong) auto
    also have "\<dots> = (if k0 \<in> K then (if P r then 1 else 0) else 0)"
      using assms by simp
    finally show ?thesis using Some by auto
  qed
  have "(\<Sum>k \<in> K. length (filter (\<lambda>r. neighborhood r = Some k \<and> P r) (r # xs)))
        = (\<Sum>k \<in> K. (if neighborhood r = Some k \<and> P r then 1 else 0)
             + length (filter (\<lambda>r. neighborhood r = Some k \<and> P r) xs))"
    by (rule sum.cong) auto
  also have "\<dots> = (\<Sum>k \<in> K. if neighborhood r = Some k \<and> P r then 1 else 0)
             + (\<Sum>k \<in> K. length (filter (\<lambda>r. neighborhood r = Some k \<and> P r) xs))"
    by (simp add: sum.distrib)
  finally show ?case
    using one Cons.IH by auto
qed

lemma total_barriers_agg_group:
  "total_barriers (agg_group cl k)
   = length (filter (\<lambda>r. neighborhood r = Some k \<and> severity r \<noteq> None) cl)"
  by (simp add: agg_group_def group_rows_def count_agg_filter)

lemma sum_total_groupby:
  "sum_list (map total_barriers (groupby_agg cl))
   = length (filter (\<lambda>r. neighborhood r \<noteq> None \<and> severity r \<noteq> None) cl)"
proof -
  let ?K = "set (group_keys cl)"
  have "sum_list (map total_barriers (groupby_agg cl))
        = (\<Sum>k \<leftarrow> group_keys cl. length (filter (\<lambda>r. neighborhood r = Some k \<and> severity r \<noteq> None) cl))"
    by (simp add: groupby_agg_def comp_def total_barriers_agg_group)
  also have "\<dots> = (\<Sum>k \<in> ?K. length (filter (\<lambda>r. neighborhood r = Some k \<and> severity r \<noteq> None) cl))"
    by (simp add: sum_list_distinct_conv_sum_set distinct_group_keys)
  also have "\<dots> = length (filter (\<lambda>r. (\<exists>k \<in> ?K. neighborhood r = Some k) \<and> severity r \<noteq> None) cl)"
    by (rule length_filter_keys) simp
  also have "\<dots> = length (filter (\<lambda>r. neighborhood r \<noteq> None \<and> severity r \<noteq> None) cl)"
    by (rule arg_cong [where f = length], rule filter_cong) (auto simp: set_group_keys)
  finally show ?thesis .
qed

lemma total_barriers_round_add [simp]:
  "total_barriers (round_cols (add_index a)) = total_barriers a"
  by (simp add: round_cols_def add_index_def)

lemma group_neighborhood_round_add [simp]:
  "group_neighborhood (round_cols (add_index a)) = group_neighborhood a"
  by (simp add: round_cols_def add_index_def)

lemma mset_ranked:
  "mset (ranked cl) = mset (map (\<lambda>k. round_cols (add_index (agg_group cl k))) (group_keys cl))"
  by (simp add: ranked_def mset_sort_values groupby_agg_def comp_def)

lemma set_ranked:
  "set (ranked cl) = (\<lambda>k. round_cols (add_index (agg_group cl k))) ` set (group_keys cl)"
  using mset_ranked [of cl] by (metis set_mset_mset set_map)

lemma length_ranked: "length (ranked cl) = length (group_keys cl)"
  using mset_ranked [of cl] by (metis size_mset length_map)

lemma mset_map_ranked:
  "image_mset f (mset (ranked cl))
   = image_mset (\<lambda>k. f (round_cols (add_index (agg_group cl k)))) (mset (group_keys cl))"
  by (simp add: mset_ranked multiset.map_comp comp_def)

lemma sum_total_ranked:
  "sum_list (map total_barriers (ranked cl))
   = length (filter (\<lambda>r. neighborhood r \<noteq> None \<and> severity r \<noteq> None) cl)"
proof -
  have "mset (map total_barriers (ranked cl)) = mset (map total_barriers (groupby_agg cl))"
    by (simp add: mset_map_ranked groupby_agg_def comp_def)
  then have "sum_list (map total_barriers (ranked cl)) = sum_list (map total_barriers (groupby_agg cl))"
    by (metis sum_mset_sum_list)
  then show ?thesis by (simp add: sum_total_groupby)
qed




lemma dropna_append: "dropna (xs @ ys) = dropna xs @ dropna ys"
  by (induction xs rule: dropna.induct) simp_all

lemma dropna_all_present: "\<forall>c \<in> set col. c \<noteq> None \<Longrightarrow> dropna col = map the col"
  by (induction col rule: dropna.induct) simp_all

lemma group_rows_nonempty: "k \<in> set (group_keys cl) \<Longrightarrow> group_rows cl k \<noteq> []"
  by (auto simp: set_group_keys group_rows_def filter_empty_conv)

lemma set_group_rows: "set (group_rows cl k) \<subseteq> set cl"
  by (auto simp: group_rows_def)

lemma group_severities_present:
  assumes "\<forall>r \<in> set cl. severity r \<noteq> None"
  shows "dropna (map severity (group_rows cl k)) = map (the \<circ> severity) (group_rows cl k)"
proof -
  have "\<forall>c \<in> set (map severity (group_rows cl k)). c \<noteq> None"
    using assms set_group_rows [of cl k] by auto
  then show ?thesis
    by (simp add: dropna_all_present)
qed

lemma index_present:
  assumes "\<forall>r \<in> set cl. severity r \<noteq> None" and "s \<in> set (ranked cl)"
  shows "barrier_density_index s \<noteq> None"
proof -
  from assms(2) obtain k where k: "k \<in> set (group_keys cl)"
    and s: "s = round_cols (add_index (agg_group cl k))"
    by (auto simp: set_ranked)
  have "dropna (map severity (group_rows cl k)) \<noteq> []"
    using group_rows_nonempty [OF k] by (simp add: group_severities_present [OF assms(1)])
  then show ?thesis
    by (simp add: s round_cols_def add_index_def agg_group_def mean_agg_def Let_def)
qed

lemma length_top10: "length (top10 df) = min 10 (length (group_keys (clean df)))"
  by (simp add: top10_def stats_def length_ranked min.commute)

section \<open>The claims\<close>

subsection \<open>C1: what the index is computed from\<close>




subsection \<open>C2: a frame that cleaning empties\<close>

text \<open>
  C2, as amended. When no row is left after the coordinate filter, lines 45 to 67 still
  run: the aggregation has no group, and the ranked report and its first ten rows are
  empty. The script has no check of its own for an empty frame.
\<close>

theorem C2_empty_clean_empty_report:
  assumes "clean df = []"
  shows "groupby_agg (clean df) = [] \<and> stats df = [] \<and> top10 df = []"
  using assms
  by (simp add: top10_def stats_def ranked_def groupby_agg_def group_keys_def sort_values_def)

text \<open>The theorem at a frame whose three rows all lack a usable location.\<close>

theorem C2_empty_clean_empty_report_witness:
  "clean frame_no_location = []
   \<and> groupby_agg (clean frame_no_location) = []
   \<and> stats frame_no_location = [] \<and> top10 frame_no_location = []"
proof -
  have e: "clean frame_no_location = []"
    by code_simp
  from C2_empty_clean_empty_report [OF e] e show ?thesis
    by simp
qed

text \<open>
  C2 as stated fails on that frame: all three rows are removed, and the outcome of the
  analysis is a report, the empty one.
\<close>

theorem C2_counterexample:
  "length frame_no_location = 3 \<and> length (clean frame_no_location) = 0
   \<and> stats frame_no_location = []"
  by code_simp

subsection \<open>C3: the sum of the group sizes\<close>

text \<open>
  C3, as amended. The sum of \<open>total_barriers\<close> over the report is the number of
  cleaned records that have both a neighborhood and a severity. When the loaded frame
  has at least one severity, no cleaned record lacks one, and the sum is the number of
  cleaned records that have a neighborhood.
\<close>

theorem C3_sum_total_barriers:
  "sum_list (map total_barriers (ranked cl))
     = length (filter (\<lambda>r. neighborhood r \<noteq> None \<and> severity r \<noteq> None) cl)
   \<and> ((\<exists>q \<in> set df. severity q \<noteq> None) \<longrightarrow>
        sum_list (map total_barriers (stats df))
          = length (filter (\<lambda>r. neighborhood r \<noteq> None) (clean df)))"
proof -
  have "sum_list (map total_barriers (stats df))
          = length (filter (\<lambda>r. neighborhood r \<noteq> None) (clean df))"
    if "\<exists>q \<in> set df. severity q \<noteq> None"
  proof -
    have "\<forall>r \<in> set (clean df). severity r \<noteq> None"
      using that severity_clean_present by blast
    then have "filter (\<lambda>r. neighborhood r \<noteq> None \<and> severity r \<noteq> None) (clean df)
               = filter (\<lambda>r. neighborhood r \<noteq> None) (clean df)"
      by (intro filter_cong) auto
    then show ?thesis
      by (simp add: stats_def sum_total_ranked)
  qed
  then show ?thesis
    by (simp add: sum_total_ranked)
qed

text \<open>The theorem at a frame of two rows, the second without a neighborhood.\<close>

theorem C3_sum_total_barriers_witness:
  "(\<exists>q \<in> set frame_no_key. severity q \<noteq> None)
   \<and> sum_list (map total_barriers (stats frame_no_key)) = 1
   \<and> length (filter (\<lambda>r. neighborhood r \<noteq> None) (clean frame_no_key)) = 1"
proof -
  have h: "\<exists>q \<in> set frame_no_key. severity q \<noteq> None"
    by code_simp
  have l: "length (filter (\<lambda>r. neighborhood r \<noteq> None) (clean frame_no_key)) = 1"
    by code_simp
  from C3_sum_total_barriers [of "clean frame_no_key" frame_no_key] h l show ?thesis
    by simp
qed

text \<open>
  C3 as stated fails on that frame: both rows are kept by cleaning, and the only group
  counts one of them.
\<close>

theorem C3_counterexample:
  "length (clean frame_no_key) = 2
   \<and> sum_list (map total_barriers (stats frame_no_key)) = 1"
  by code_simp

subsection \<open>C4: what a cleaned record looks like\<close>

text \<open>
  C4, as amended. Every cleaned record has a longitude and a latitude, and they are not
  both 0. Its severity is present when the loaded frame has at least one severity, and
  lies between 1 and 5 when every severity of the loaded frame does. The script neither
  checks the range of a severity nor has a value to fill in when all are missing.
\<close>

theorem C4_cleaned_records:
  assumes "r \<in> set (clean df)"
  shows "longitude r \<noteq> None \<and> latitude r \<noteq> None
       \<and> \<not> (longitude r = Some 0 \<and> latitude r = Some 0)
       \<and> ((\<exists>q \<in> set df. severity q \<noteq> None) \<longrightarrow> severity r \<noteq> None)
       \<and> ((\<forall>q \<in> set df. \<forall>v. severity q = Some v \<longrightarrow> 1 \<le> v \<and> v \<le> 5) \<longrightarrow>
            (\<forall>v. severity r = Some v \<longrightarrow> 1 \<le> v \<and> v \<le> 5))"
proof -
  let ?m = "median (dropna (map severity df))"
  from assms obtain q where q: "q \<in> set df" "\<not> bad_coords q"
    and r: "r = q\<lparr>severity := fillna ?m (severity q)\<rparr>"
    by (auto simp: clean_filter_first)
  have coords: "longitude r \<noteq> None \<and> latitude r \<noteq> None
       \<and> \<not> (longitude r = Some 0 \<and> latitude r = Some 0)"
    using q(2) r by (auto simp: bad_coords_def)
  have range: "1 \<le> v \<and> v \<le> 5"
    if all: "\<forall>q \<in> set df. \<forall>v. severity q = Some v \<longrightarrow> 1 \<le> v \<and> v \<le> 5"
      and v: "severity r = Some v" for v
  proof (cases "severity q")
    case (Some w)
    with r v have "v = w" by simp
    with all q(1) Some show ?thesis by blast
  next
    case None
    with r v have m: "?m = Some v" by simp
    have "\<forall>w \<in> set (dropna (map severity df)). 1 \<le> w \<and> w \<le> 5"
      using all by (auto simp: set_dropna)
    from median_bounds [OF this m] show ?thesis .
  qed
  show ?thesis
    using coords severity_clean_present [OF _ assms] range by blast
qed

text \<open>The theorem at the frame with the severities 1, 3, missing, 5, missing.\<close>

theorem C4_cleaned_records_witness:
  "located (Some ''A'') (Some 3) \<in> set (clean frame_imputation)
   \<and> map severity frame_imputation = [Some 1, Some 3, None, Some 5, None]
   \<and> longitude (located (Some ''A'') (Some 3)) = Some (- 122)
   \<and> latitude (located (Some ''A'') (Some 3)) = Some 47
   \<and> severity (located (Some ''A'') (Some 3)) = Some 3
   \<and> map severity (clean frame_imputation) = [Some 1, Some 3, Some 3, Some 5, Some 3]"
proof -
  have m: "located (Some ''A'') (Some 3) \<in> set (clean frame_imputation)"
    by code_simp
  have h1: "\<exists>q \<in> set frame_imputation. severity q \<noteq> None"
    by code_simp
  have h2: "\<forall>q \<in> set frame_imputation. \<forall>v. severity q = Some v \<longrightarrow> 1 \<le> v \<and> v \<le> 5"
    by (simp add: frame_imputation_def located_def barrier_def)
  have e: "map severity (clean frame_imputation) = [Some 1, Some 3, Some 3, Some 5, Some 3]"
    by code_simp
  have i: "map severity frame_imputation = [Some 1, Some 3, None, Some 5, None]"
    by code_simp
  from C4_cleaned_records [OF m] m h1 h2 e i show ?thesis
    by (simp add: located_def barrier_def)
qed

text \<open>
  C4 as stated fails twice: when every severity is missing the median is NaN and the
  cleaned records keep their missing severity, and a severity of 7 passes unchanged.
\<close>

theorem C4_counterexample:
  "map severity (clean frame_all_null) = [None, None]
   \<and> map severity (clean frame_out_of_range) = [Some 7]"
  by code_simp

subsection \<open>C5: imputation by the median of the whole frame\<close>



subsection \<open>C6: the coordinate filter\<close>

text \<open>
  C6. The cleaned frame consists of the rows of the loaded frame, in order and with
  their severity filled, except those whose longitude and latitude are both 0 or whose
  longitude or latitude is missing. The mask does not depend on the severity. Of the
  rows at (0, 47.6) and (0, 0) the first is kept and the second removed.
\<close>

theorem C6_coordinate_filter:
  "clean df
     = map (\<lambda>r. r\<lparr>severity := fillna (median (dropna (map severity df))) (severity r)\<rparr>)
         (filter (\<lambda>r. \<not> ((longitude r = Some 0 \<and> latitude r = Some 0)
                           \<or> longitude r = None \<or> latitude r = None)) df)
   \<and> bad_coords (r\<lparr>severity := s\<rparr>) = bad_coords r
   \<and> (bad_coords r \<longleftrightarrow>
        (longitude r = Some 0 \<and> latitude r = Some 0) \<or> longitude r = None \<or> latitude r = None)
   \<and> clean frame_origin = [barrier (Some 0) (Some (238 / 5)) (Some ''A'') (Some 4)]"
proof -
  have "clean frame_origin = [barrier (Some 0) (Some (238 / 5)) (Some ''A'') (Some 4)]"
    by code_simp
  moreover have "clean df
     = map (\<lambda>r. r\<lparr>severity := fillna (median (dropna (map severity df))) (severity r)\<rparr>)
         (filter (\<lambda>r. \<not> ((longitude r = Some 0 \<and> latitude r = Some 0)
                           \<or> longitude r = None \<or> latitude r = None)) df)"
    by (simp add: clean_filter_first bad_coords_def)
  ultimately show ?thesis
    by (simp add: bad_coords_def)
qed

text \<open>The theorem at these two rows.\<close>

theorem C6_coordinate_filter_witness:
  "map (\<lambda>r. (longitude r, latitude r)) frame_origin = [(Some 0, Some (238 / 5)), (Some 0, Some 0)]
   \<and> map (\<lambda>r. (longitude r, latitude r)) (clean frame_origin) = [(Some 0, Some (238 / 5))]
   \<and> map bad_coords frame_origin = [False, True]
   \<and> bad_coords ((barrier (Some 0) (Some 0) (Some ''A'') (Some 4))\<lparr>severity := None\<rparr>)
   \<and> bad_coords (barrier (Some 0) (Some 0) (Some ''A'') (Some 4))"
proof -
  note t = C6_coordinate_filter [where df = frame_origin
      and r = "barrier (Some 0) (Some 0) (Some ''A'') (Some 4)" and s = None]
  have a: "map (\<lambda>r. (longitude r, latitude r)) frame_origin
           = [(Some 0, Some (238 / 5)), (Some 0, Some 0)]"
    by code_simp
  have b: "map bad_coords frame_origin = [False, True]"
    by code_simp
  have c: "map (\<lambda>r. (longitude r, latitude r)) (clean frame_origin) = [(Some 0, Some (238 / 5))]"
    using t [THEN conjunct2, THEN conjunct2, THEN conjunct2]
    by (simp add: barrier_def)
  have d: "bad_coords (barrier (Some 0) (Some 0) (Some ''A'') (Some 4))"
    using t [THEN conjunct2, THEN conjunct2, THEN conjunct1]
    by (simp add: barrier_def)
  have e: "bad_coords ((barrier (Some 0) (Some 0) (Some ''A'') (Some 4))\<lparr>severity := None\<rparr>)"
    using t [THEN conjunct2, THEN conjunct1] d by (simp only:)
  show ?thesis
    by (intro conjI a c b e d)
qed

subsection \<open>C7: one row of statistics for each neighborhood\<close>




subsection \<open>C8: the order of the ranked report\<close>

text \<open>
  C8, as amended. The ranked report is in descending order of the index with missing
  indices last: of two consecutive rows, either the later one has no index or both have
  one and the earlier is at least the later. When the loaded frame has at least one
  severity every index is present, and the index of each row is at least that of the
  next.
\<close>

theorem C8_ranked_order:
  "sorted_wrt in_rank_order (stats df)
   \<and> (\<forall>i. Suc i < length (stats df) \<longrightarrow>
         goes_before (barrier_density_index (stats df ! i))
                     (barrier_density_index (stats df ! Suc i)))
   \<and> ((\<exists>q \<in> set df. severity q \<noteq> None) \<longrightarrow>
        (\<forall>i. Suc i < length (stats df) \<longrightarrow>
           float_ge (barrier_density_index (stats df ! i))
                    (barrier_density_index (stats df ! Suc i))))"
proof -
  have srt: "sorted_wrt in_rank_order (stats df)"
    by (simp add: stats_def ranked_def sorted_sort_values)
  have pair: "goes_before (barrier_density_index (stats df ! i))
                          (barrier_density_index (stats df ! Suc i))"
    if "Suc i < length (stats df)" for i
    using sorted_wrt_nth_less [OF srt, of i "Suc i"] that by simp
  have ge: "float_ge (barrier_density_index (stats df ! i))
                     (barrier_density_index (stats df ! Suc i))"
    if some: "\<exists>q \<in> set df. severity q \<noteq> None" and i: "Suc i < length (stats df)" for i
  proof -
    have all: "\<forall>r \<in> set (clean df). severity r \<noteq> None"
      using severity_clean_present [OF some] by blast
    have "stats df ! i \<in> set (ranked (clean df))" and "stats df ! Suc i \<in> set (ranked (clean df))"
      using i by (simp_all add: stats_def)
    then obtain x y where "barrier_density_index (stats df ! i) = Some x"
      and "barrier_density_index (stats df ! Suc i) = Some y"
      using index_present [OF all] by blast
    with pair [OF i] show ?thesis by simp
  qed
  show ?thesis
    using srt pair ge by blast
qed

text \<open>The theorem at the records (A, 4), (A, 2), (B, 5).\<close>

theorem C8_ranked_order_witness:
  "(\<exists>q \<in> set frame_example. severity q \<noteq> None)
   \<and> length (stats frame_example) = 2
   \<and> map barrier_density_index (stats frame_example) = [Some 6, Some 5]
   \<and> float_ge (barrier_density_index (stats frame_example ! 0))
               (barrier_density_index (stats frame_example ! Suc 0))"
proof -
  have h: "\<exists>q \<in> set frame_example. severity q \<noteq> None"
    by code_simp
  have l: "length (stats frame_example) = 2"
    by code_simp
  have m: "map barrier_density_index (stats frame_example) = [Some 6, Some 5]"
    by code_simp
  have i: "Suc 0 < length (stats frame_example)"
    by (simp add: l)
  note t = C8_ranked_order [of frame_example, THEN conjunct2, THEN conjunct2, rule_format, OF h i]
  show ?thesis
    by (intro conjI h l m t)
qed

text \<open>
  C8 as stated fails when every severity is missing: both rows of the report have the
  index NaN, and NaN is not at least NaN.
\<close>

theorem C8_counterexample:
  "length (stats frame_all_null) = 2
   \<and> map barrier_density_index (stats frame_all_null) = [None, None]
   \<and> \<not> float_ge (barrier_density_index (stats frame_all_null ! 0))
                 (barrier_density_index (stats frame_all_null ! 1))"
  by code_simp

subsection \<open>C9: fewer than ten neighborhoods\<close>

text \<open>
  C9 at a frame with one neighborhood. The first ten rows of the report are the whole
  report, its single row; the summary then reads a second row at line 197, and that
  raises IndexError.
\<close>

theorem C9_single_neighborhood:
  "top10 frame_single
     = [\<lparr>group_neighborhood = ''A'', total_barriers = 1, avg_severity = Some 3,
         barrier_density_index = Some 3\<rparr>]
   \<and> top10 frame_single = stats frame_single
   \<and> quick_insight (top10 frame_single) = Inl IndexError"
  by code_simp

text \<open>With at most ten neighborhoods the first ten rows are the whole report.\<close>

theorem top10_holds_all:
  "length (group_keys (clean df)) \<le> 10 \<Longrightarrow> top10 df = stats df"
  by (simp add: top10_def stats_def length_ranked)

theorem top10_holds_all_witness:
  "length (group_keys (clean frame_example)) = 2 \<and> top10 frame_example = stats frame_example"
proof -
  have l: "length (group_keys (clean frame_example)) = 2"
    by code_simp
  then have "length (group_keys (clean frame_example)) \<le> 10"
    by simp
  from top10_holds_all [OF this] l show ?thesis
    by simp
qed

text \<open>The summary raises IndexError exactly when there are fewer than two neighborhoods.\<close>

theorem quick_insight_needs_two:
  "(quick_insight (top10 df) = Inl IndexError) = (length (group_keys (clean df)) < 2)"
proof -
  have "length (top10 df) < 2 \<longleftrightarrow> length (group_keys (clean df)) < 2"
    unfolding length_top10 by linarith
  moreover have "(quick_insight t = Inl IndexError) = (length t < 2)" for t :: "stats_row list"
    by (cases t; cases "tl t") (auto simp: quick_insight_def iloc_def)
  ultimately show ?thesis
    by simp
qed

theorem quick_insight_needs_two_witness:
  "length (group_keys (clean frame_example)) = 2
   \<and> quick_insight (top10 frame_example) \<noteq> Inl IndexError
   \<and> length (group_keys (clean frame_single)) = 1
   \<and> quick_insight (top10 frame_single) = Inl IndexError"
proof -
  have a: "length (group_keys (clean frame_example)) = 2"
    by code_simp
  have b: "length (group_keys (clean frame_single)) = 1"
    by code_simp
  from quick_insight_needs_two [of frame_example] quick_insight_needs_two [of frame_single] a b
  show ?thesis
    by simp
qed

subsection \<open>C10: records without a neighborhood\<close>

text \<open>
  C10. A cleaned record whose neighborhood is missing takes no part in the aggregation:
  the groups and the ranked report are those of the frame without it, it is in no
  group, and the sum of \<open>total_barriers\<close> stays below the number of cleaned records,
  in which it counts. The analysis is a total function of the frame and its result has
  no field for such records: nothing is raised and nothing is reported.
\<close>

theorem C10_null_key_excluded:
  assumes "neighborhood r = None"
  shows "groupby_agg (xs @ r # ys) = groupby_agg (xs @ ys)
       \<and> ranked (xs @ r # ys) = ranked (xs @ ys)
       \<and> r \<notin> set (group_rows (xs @ r # ys) k)
       \<and> sum_list (map total_barriers (ranked (xs @ r # ys))) < length (xs @ r # ys)
       \<and> length (xs @ r # ys) = Suc (length (xs @ ys))"
proof -
  have keys: "group_keys (xs @ r # ys) = group_keys (xs @ ys)"
    using assms by (simp add: group_keys_def dropna_append)
  have rows: "group_rows (xs @ r # ys) k = group_rows (xs @ ys) k" for k
    using assms by (simp add: group_rows_def)
  have agg: "groupby_agg (xs @ r # ys) = groupby_agg (xs @ ys)"
    by (simp add: groupby_agg_def keys agg_group_def rows)
  have "sum_list (map total_barriers (ranked (xs @ r # ys)))
        = length (filter (\<lambda>r. neighborhood r \<noteq> None \<and> severity r \<noteq> None) (xs @ ys))"
    using assms by (simp add: sum_total_ranked)
  also have "\<dots> \<le> length (xs @ ys)"
    by (rule length_filter_le)
  finally have "sum_list (map total_barriers (ranked (xs @ r # ys))) < length (xs @ r # ys)"
    by simp
  moreover have "r \<notin> set (group_rows (xs @ r # ys) k)"
    using assms by (simp add: group_rows_def)
  ultimately show ?thesis
    using agg by (simp add: ranked_def)
qed

text \<open>The theorem at a frame of two rows, the second without a neighborhood.\<close>

theorem C10_null_key_excluded_witness:
  "neighborhood (located None (Some 5)) = None
   \<and> clean frame_no_key = [located (Some ''A'') (Some 3)] @ located None (Some 5) # []
   \<and> stats frame_no_key = ranked ([located (Some ''A'') (Some 3)] @ [])
   \<and> map (\<lambda>s. (group_neighborhood s, total_barriers s)) (stats frame_no_key) = [(''A'', 1)]
   \<and> length (clean frame_no_key) = 2"
proof -
  have n: "neighborhood (located None (Some 5)) = None"
    by code_simp
  have c: "clean frame_no_key = [located (Some ''A'') (Some 3)] @ located None (Some 5) # []"
    by code_simp
  have m: "map (\<lambda>s. (group_neighborhood s, total_barriers s)) (stats frame_no_key) = [(''A'', 1)]"
    by code_simp
  have l: "length (clean frame_no_key) = 2"
    by (simp add: c)
  note t = C10_null_key_excluded [OF n, of "[located (Some ''A'') (Some 3)]" "[]"]
  have s: "stats frame_no_key = ranked ([located (Some ''A'') (Some 3)] @ [])"
    unfolding stats_def c by (rule t [THEN conjunct2, THEN conjunct1])
  show ?thesis
    by (intro conjI n c s m l)
qed

end
